theory Spec2Isabelle
  imports Main
begin

section \<open>Strings\<close>

text \<open>
  A string is the list of the bytes of the source text, which is UTF-8. Two characters
  of the repository's strings are outside ASCII: the em dash and the rocket emoji.
\<close>

definition em_dash :: string where
  "em_dash = [CHR 0xE2, CHR 0x80, CHR 0x94]"

definition rocket :: string where
  "rocket = [CHR 0xF0, CHR 0x9F, CHR 0x9A, CHR 0x80]"

section \<open>The sidebar module (website/sidebars.ts, first module)\<close>

text \<open>
  The module holds one constant, \<open>sidebars\<close>, of the Docusaurus type \<open>SidebarsConfig\<close>:
  an object from sidebar names to lists of items. An item is written either as a string
  (a document identifier) or as an object with \<open>type: 'category'\<close>, a \<open>label\<close>, a
  \<open>collapsed\<close> flag and a list of \<open>items\<close>, which the type allows to nest.
\<close>

datatype SidebarItemConfig =
    Doc string
  | Category (label: string) (collapsed: bool) (items: "SidebarItemConfig list")

type_synonym SidebarsConfig = "(string \<times> SidebarItemConfig list) list"

definition courseSidebar :: "SidebarItemConfig list" where
  "courseSidebar = [
     Doc ''intro'',
     Category ''Part 1: React Fundamentals'' False [
       Doc ''chapters/00-react-architecture'',
       Doc ''chapters/01-setup-first-component'',
       Doc ''chapters/02-state-and-events'',
       Doc ''chapters/03-component-composition'',
       Doc ''chapters/04-side-effects-lifecycle'',
       Doc ''chapters/05-context-global-state'',
       Doc ''chapters/06-custom-hooks''],
     Category ''Part 2: Routing & Forms'' True [
       Doc ''chapters/07-react-router'',
       Doc ''chapters/08-forms-validation''],
     Category ''Part 3: Tailwind CSS'' True [
       Doc ''chapters/09-tailwind-fundamentals'',
       Doc ''chapters/10-advanced-tailwind''],
     Category ''Part 4: shadcn/ui'' True [
       Doc ''chapters/11-shadcn-setup-core'',
       Doc ''chapters/12-shadcn-complex-components'',
       Doc ''chapters/13-data-display'',
       Doc ''chapters/14-shadcn-forms'',
       Doc ''chapters/15-theming-polish''],
     Category ''Part 5: Production'' True [
       Doc ''chapters/16-performance'',
       Doc ''chapters/17-testing'']]"

definition sidebars :: SidebarsConfig where
  "sidebars = [(''courseSidebar'', courseSidebar)]"

subsection \<open>Reading the navigation tree\<close>

fun is_doc :: "SidebarItemConfig \<Rightarrow> bool" where
  "is_doc (Doc i) = True"
| "is_doc (Category l c its) = False"

text \<open>A category is flat when every one of its items is a document identifier.\<close>

fun flat_category :: "SidebarItemConfig \<Rightarrow> bool" where
  "flat_category (Doc i) = False"
| "flat_category (Category l c its) = list_all is_doc its"

text \<open>The document identifiers of an item, in the order of the tree, at any depth.\<close>

fun doc_ids :: "SidebarItemConfig \<Rightarrow> string list" where
  "doc_ids (Doc i) = [i]"
| "doc_ids (Category l c its) = concat (map doc_ids its)"

definition sidebar_doc_ids :: "SidebarItemConfig list \<Rightarrow> string list" where
  "sidebar_doc_ids tree = concat (map doc_ids tree)"

definition category_labels :: "SidebarItemConfig list \<Rightarrow> string list" where
  "category_labels tree = map label (filter (\<lambda>it. \<not> is_doc it) tree)"

text \<open>
  The chapter number of an identifier of the shape \<open>chapters/NN-name\<close>: the two decimal
  digits after the directory; \<open>None\<close> for any other identifier.
\<close>

definition digit_of :: "char \<Rightarrow> nat option" where
  "digit_of c =
     (let n = (of_char c :: nat) in if 48 \<le> n \<and> n \<le> 57 then Some (n - 48) else None)"

definition chapter_number :: "string \<Rightarrow> nat option" where
  "chapter_number i =
     (if take 9 i = ''chapters/'' \<and> take 1 (drop 11 i) = ''-'' then
        (case (digit_of (i ! 9), digit_of (i ! 10)) of
           (Some a, Some b) \<Rightarrow> Some (10 * a + b)
         | _ \<Rightarrow> None)
      else None)"

section \<open>The site configuration module (website/sidebars.ts, second module)\<close>

text \<open>
  The second module of the file is the Docusaurus configuration: one constant
  \<open>config\<close> of type \<open>Config\<close>. It is an object literal, and three of its values are
  not literals: \<open>prismThemes.github\<close> and \<open>prismThemes.dracula\<close> read the \<open>themes\<close>
  export of the package prism-react-renderer, and the footer's copyright line is a
  template literal around \<open>new Date().getFullYear()\<close>. The package's export and the
  clock are inputs of the evaluation, so \<open>config\<close> is a function of the runtime it is
  evaluated in.
\<close>

record 'h runtime =
  clock_year :: int
  prismThemes :: "(string \<times> 'h) list"

text \<open>
  \<open>clock_year\<close> is what \<open>new Date().getFullYear()\<close> returns: the calendar year of the
  host clock in local time. \<open>prismThemes\<close> is the imported object, from theme names to
  theme objects of the package (of a type \<open>'h\<close> that the module never looks into).
  A runtime is thus a run in which the import has resolved to an object, and \<open>config\<close>
  is the value of the module in such a run. The runs in which the import does not
  resolve are those of a \<open>host\<close>, in the section on the modules as expressions.
\<close>

text \<open>Reading a property of an object: \<open>undefined\<close> (here \<open>None\<close>) when it has none.\<close>

definition get_property :: "(string \<times> 'v) list \<Rightarrow> string \<Rightarrow> 'v option" where
  "get_property obj k = map_of obj k"

text \<open>
  A number in a template literal is converted by \<open>ToString\<close>; for an integer of the
  size of a calendar year that is its decimal numeral, with a minus sign when negative.
\<close>

definition digit_char :: "nat \<Rightarrow> char" where
  "digit_char d = char_of (48 + d)"

fun decimal :: "nat \<Rightarrow> string" where
  "decimal n = (if n < 10 then [digit_char n] else decimal (n div 10) @ [digit_char (n mod 10)])"

definition number_to_string :: "int \<Rightarrow> string" where
  "number_to_string n = (if n < 0 then CHR ''-'' # decimal (nat (- n)) else decimal (nat n))"

datatype ReportingSeverity = Ignore | Log | Warn | Throw

record Future =
  v4 :: bool

record I18n =
  defaultLocale :: string
  locales :: "string list"

record Markdown =
  mermaid :: bool

record DocsOptions =
  sidebarPath :: string
  editUrl :: string
  routeBasePath :: string

record PresetTheme =
  customCss :: string

record PresetOptions =
  docs :: DocsOptions
  blog :: bool
  theme :: PresetTheme

record ColorMode =
  defaultMode :: string
  respectPrefersColorScheme :: bool

record Logo =
  alt :: string
  src :: string

text \<open>
  A navbar item is either a link to a sidebar (\<open>type: 'docSidebar'\<close>, with \<open>sidebarId\<close>,
  \<open>position\<close>, \<open>label\<close>) or an external link (\<open>href\<close>, \<open>label\<close>, \<open>position\<close>); the
  arguments are in the order the source writes them.
\<close>

datatype NavbarItem =
    DocSidebarItem string string string
  | HrefItem string string string

record Navbar =
  navbar_title :: string
  logo :: Logo
  navbar_items :: "NavbarItem list"

text \<open>A footer link has a \<open>label\<close> and either an internal target \<open>to\<close> or an \<open>href\<close>.\<close>

datatype FooterLinkItem =
    ToLink string string
  | HrefLink string string

record FooterColumn =
  column_title :: string
  column_items :: "FooterLinkItem list"

record Footer =
  style :: string
  links :: "FooterColumn list"
  copyright :: string

record 'h Prism =
  prism_theme :: "'h option"
  darkTheme :: "'h option"
  additionalLanguages :: "string list"

record 'h ThemeConfig =
  image :: string
  colorMode :: ColorMode
  navbar :: Navbar
  footer :: Footer
  prism :: "'h Prism"

record 'h Config =
  title :: string
  tagline :: string
  favicon :: string
  future :: Future
  url :: string
  baseUrl :: string
  organizationName :: string
  projectName :: string
  onBrokenLinks :: ReportingSeverity
  i18n :: I18n
  markdown :: Markdown
  themes :: "string list"
  presets :: "(string \<times> PresetOptions) list"
  themeConfig :: "'h ThemeConfig"

definition config :: "'h runtime \<Rightarrow> 'h Config" where
  "config rt = \<lparr>
     title = ''Learn React by Building'',
     tagline = ''A project-based React 19 curriculum '' @ em_dash
               @ '' from mental models to production UI'',
     favicon = ''img/favicon.ico'',
     future = \<lparr> v4 = True \<rparr>,
     url = ''https://bobby-openclaw.github.io'',
     baseUrl = ''/react-learning/'',
     organizationName = ''bobby-openclaw'',
     projectName = ''react-learning'',
     onBrokenLinks = Warn,
     i18n = \<lparr> defaultLocale = ''en'', locales = [''en''] \<rparr>,
     markdown = \<lparr> mermaid = True \<rparr>,
     themes = [''@docusaurus/theme-live-codeblock'', ''@docusaurus/theme-mermaid''],
     presets = [
       (''classic'', \<lparr>
          docs = \<lparr>
            sidebarPath = ''./sidebars.ts'',
            editUrl = ''https://github.com/bobby-openclaw/react-learning/tree/main/website/'',
            routeBasePath = ''/'' \<rparr>,
          blog = False,
          theme = \<lparr> customCss = ''./src/css/custom.css'' \<rparr> \<rparr>)],
     themeConfig = \<lparr>
       image = ''img/react-learning-social.png'',
       colorMode = \<lparr> defaultMode = ''dark'', respectPrefersColorScheme = True \<rparr>,
       navbar = \<lparr>
         navbar_title = ''Learn React'',
         logo = \<lparr> alt = ''React Logo'', src = ''img/logo.svg'' \<rparr>,
         navbar_items = [
           DocSidebarItem ''courseSidebar'' ''left'' ''Course'',
           HrefItem ''https://github.com/bobby-openclaw/taskflow-app'' ''TaskFlow Code'' ''left'',
           HrefItem ''https://github.com/bobby-openclaw/react-learning'' ''GitHub'' ''right''] \<rparr>,
       footer = \<lparr>
         style = ''dark'',
         links = [
           \<lparr> column_title = ''Course'',
             column_items = [
               ToLink ''Part 1: React Fundamentals'' ''/category/part-1-react-fundamentals'',
               ToLink ''Part 2: Tailwind CSS'' ''/category/part-2-tailwind-css'',
               ToLink ''Part 3: shadcn/ui'' ''/category/part-3-shadcnui''] \<rparr>,
           \<lparr> column_title = ''Resources'',
             column_items = [
               HrefLink ''TaskFlow Companion Repo'' ''https://github.com/bobby-openclaw/taskflow-app'',
               HrefLink ''React Docs'' ''https://react.dev'',
               HrefLink ''Tailwind Docs'' ''https://tailwindcss.com''] \<rparr>,
           \<lparr> column_title = ''More'',
             column_items = [
               HrefLink ''GitHub'' ''https://github.com/bobby-openclaw/react-learning''] \<rparr>],
         copyright = ''Built with React 19 in mind. Last updated ''
                     @ number_to_string (clock_year rt) @ ''.'' \<rparr>,
       prism = \<lparr>
         prism_theme = get_property (prismThemes rt) ''github'',
         darkTheme = get_property (prismThemes rt) ''dracula'',
         additionalLanguages = [''bash'', ''json'', ''typescript'', ''tsx''] \<rparr> \<rparr> \<rparr>"

subsection \<open>Reading the footer\<close>

fun link_label :: "FooterLinkItem \<Rightarrow> string" where
  "link_label (ToLink l t) = l"
| "link_label (HrefLink l h) = l"

text \<open>The items of the footer column with a given title (none when no column has it).\<close>

definition footer_column :: "string \<Rightarrow> Footer \<Rightarrow> FooterLinkItem list" where
  "footer_column t f = concat (map column_items (filter (\<lambda>c. column_title c = t) (links f)))"

text \<open>The Course links of the footer whose label is the label of no sidebar category.\<close>

definition unmatched_course_links :: "'h Config \<Rightarrow> FooterLinkItem list" where
  "unmatched_course_links c =
     filter (\<lambda>l. link_label l \<notin> set (category_labels courseSidebar))
       (footer_column ''Course'' (footer (themeConfig c)))"

subsection \<open>Evaluating the two modules\<close>

text \<open>
  The values the two modules export when they are evaluated in a runtime. The sidebar
  module reads nothing of it.
\<close>

definition evaluate :: "'h runtime \<Rightarrow> SidebarsConfig \<times> 'h Config" where
  "evaluate rt = (sidebars, config rt)"

subsection \<open>What the build does with broken links\<close>

text \<open>
  Modelled from the spec: the Docusaurus build, which the spec names as what would
  validate the configuration (``the Docusaurus build succeeding and links resolving''),
  is not code of this repository. Its report of the links that do not resolve is
  governed by \<open>onBrokenLinks\<close>, one of Docusaurus's reporting severities: \<open>ignore\<close>
  drops the report, \<open>log\<close> and \<open>warn\<close> print it and the build goes on, \<open>throw\<close>
  raises an error, which fails the build. With no broken link there is nothing to report.
\<close>

datatype build_error = BrokenLinks "string list"

datatype report = NoReport | Info "string list" | Warning "string list"

definition reportBrokenLinks :: "ReportingSeverity \<Rightarrow> string list \<Rightarrow> build_error + report" where
  "reportBrokenLinks severity brokenLinks =
     (if brokenLinks = [] then Inr NoReport
      else case severity of
             Ignore \<Rightarrow> Inr NoReport
           | Log \<Rightarrow> Inr (Info brokenLinks)
           | Warn \<Rightarrow> Inr (Warning brokenLinks)
           | Throw \<Rightarrow> Inl (BrokenLinks brokenLinks))"

section \<open>The two modules as expressions\<close>

text \<open>
  The definitions above give the values of the two modules. They cannot say whether
  evaluating a module raises an error, since a HOL function has a value at every
  argument. For that question the initialisers of \<open>sidebars\<close> and \<open>config\<close> are also
  written down as the expressions they are, with the evaluation rules of the language
  for the constructs they use: string and boolean literals, array and object literals,
  identifiers, property access, \<open>new\<close> without arguments, a method call without
  arguments, and a template literal. The type-level parts of the source (\<open>import type\<close>,
  the type annotations and \<open>satisfies\<close>) are erased before evaluation and do not appear.
  What is left of the imports is one value import, in the configuration module:
  \<open>import {themes as prismThemes} from 'prism-react-renderer'\<close>.
\<close>

subsection \<open>Values and errors\<close>

text \<open>
  \<open>JHost\<close> is an object of a package that the modules pass on without looking into it
  (a Prism theme); \<open>JDateCtor\<close> is the global \<open>Date\<close>; \<open>JDate y\<close> is a \<open>Date\<close> object whose
  calendar year in local time is \<open>y\<close>. An evaluation ends in an error value where the
  language throws (\<open>ReferenceError\<close>, \<open>TypeError\<close>), in \<open>ImportError\<close> where a package
  that a module imports a value from cannot be loaded, and in \<open>NotModelled\<close> where it
  would need a rule that is not written down here, so that no result rests on a rule
  that is missing.
\<close>

datatype 'h jsval =
    JUndefined
  | JNull
  | JBool bool
  | JNum int
  | JStr string
  | JArr "'h jsval list"
  | JObj "(string \<times> 'h jsval) list"
  | JHost 'h
  | JDateCtor
  | JDate int

datatype error = ReferenceError string | TypeError string | ImportError string | NotModelled string

subsection \<open>Expressions and their evaluation\<close>

datatype expr =
    Str string
  | Bool bool
  | Arr "expr list"
  | Obj "(string \<times> expr) list"
  | Ident string
  | Member expr string
  | New expr
  | CallMethod expr string
  | Template "expr list"

subsection \<open>The host of an evaluation\<close>

text \<open>
  Nothing in the repository fixes which prism-react-renderer a run finds. The value
  import of \<open>themes\<close> has three outcomes: the package cannot be loaded (\<open>Missing\<close>); it is
  loaded and has no export \<open>themes\<close>, as the releases of the package before its second
  major version, so that the binding \<open>prismThemes\<close> is \<open>undefined\<close> in the module as
  Docusaurus loads it (\<open>NoExport\<close>); or it exports the object of its themes (\<open>Export\<close>).
  A host is a run of a module: the calendar year of its clock, and the outcome of the
  import.
\<close>

datatype 'h resolution = Missing | NoExport | Export "(string \<times> 'h) list"

record 'h host =
  host_year :: int
  themes_import :: "'h resolution"

text \<open>
  The identifiers in scope: the import \<open>prismThemes\<close>, bound to what the import gave,
  and the global \<open>Date\<close>. Any other identifier is not defined.
\<close>

definition lookup :: "'h host \<Rightarrow> string \<Rightarrow> error + 'h jsval" where
  "lookup hst x =
     (if x = ''prismThemes'' then
        (case themes_import hst of
           Missing \<Rightarrow> Inl (ImportError ''prism-react-renderer'')
         | NoExport \<Rightarrow> Inr JUndefined
         | Export ths \<Rightarrow> Inr (JObj (map (\<lambda>(k, h). (k, JHost h)) ths)))
      else if x = ''Date'' then Inr JDateCtor
      else Inl (ReferenceError x))"

text \<open>
  Reading a property throws on \<open>undefined\<close> and \<open>null\<close>; on an object it gives the
  property's value, or \<open>undefined\<close> when the object has no such property.
\<close>

fun get_member :: "'h jsval \<Rightarrow> string \<Rightarrow> error + 'h jsval" where
  "get_member JUndefined k = Inl (TypeError k)"
| "get_member JNull k = Inl (TypeError k)"
| "get_member (JObj ps) k = Inr (case map_of ps k of Some v \<Rightarrow> v | None \<Rightarrow> JUndefined)"
| "get_member v k = Inl (NotModelled k)"

text \<open>\<open>new Date()\<close> is the present moment; \<open>new\<close> of a value that is no constructor throws.\<close>

fun construct :: "'h host \<Rightarrow> 'h jsval \<Rightarrow> error + 'h jsval" where
  "construct hst JDateCtor = Inr (JDate (host_year hst))"
| "construct hst (JHost h) = Inl (NotModelled ''new'')"
| "construct hst v = Inl (TypeError ''new'')"

fun call_method :: "'h jsval \<Rightarrow> string \<Rightarrow> error + 'h jsval" where
  "call_method JUndefined m = Inl (TypeError m)"
| "call_method JNull m = Inl (TypeError m)"
| "call_method (JDate y) m = (if m = ''getFullYear'' then Inr (JNum y) else Inl (NotModelled m))"
| "call_method v m = Inl (NotModelled m)"

text \<open>The conversion of the substitutions of a template literal to strings.\<close>

fun to_string :: "'h jsval \<Rightarrow> error + string" where
  "to_string (JStr s) = Inr s"
| "to_string (JNum n) = Inr (number_to_string n)"
| "to_string (JBool b) = Inr (if b then ''true'' else ''false'')"
| "to_string JUndefined = Inr ''undefined''"
| "to_string JNull = Inr ''null''"
| "to_string v = Inl (NotModelled ''ToString'')"

fun to_strings :: "'h jsval list \<Rightarrow> error + string" where
  "to_strings [] = Inr []"
| "to_strings (v # vs) =
     (case to_string v of
        Inl e \<Rightarrow> Inl e
      | Inr s \<Rightarrow> (case to_strings vs of Inl e \<Rightarrow> Inl e | Inr t \<Rightarrow> Inr (s @ t)))"

text \<open>Evaluation is from left to right and stops at the first error.\<close>

fun eval :: "'h host \<Rightarrow> expr \<Rightarrow> error + 'h jsval"
  and eval_list :: "'h host \<Rightarrow> expr list \<Rightarrow> error + 'h jsval list"
  and eval_props :: "'h host \<Rightarrow> (string \<times> expr) list \<Rightarrow> error + (string \<times> 'h jsval) list"
where
  "eval hst (Str s) = Inr (JStr s)"
| "eval hst (Bool b) = Inr (JBool b)"
| "eval hst (Arr es) = (case eval_list hst es of Inl e \<Rightarrow> Inl e | Inr vs \<Rightarrow> Inr (JArr vs))"
| "eval hst (Obj ps) = (case eval_props hst ps of Inl e \<Rightarrow> Inl e | Inr vs \<Rightarrow> Inr (JObj vs))"
| "eval hst (Ident x) = lookup hst x"
| "eval hst (Member e k) = (case eval hst e of Inl err \<Rightarrow> Inl err | Inr v \<Rightarrow> get_member v k)"
| "eval hst (New e) = (case eval hst e of Inl err \<Rightarrow> Inl err | Inr v \<Rightarrow> construct hst v)"
| "eval hst (CallMethod e m) = (case eval hst e of Inl err \<Rightarrow> Inl err | Inr v \<Rightarrow> call_method v m)"
| "eval hst (Template es) = (case eval_list hst es of Inl e \<Rightarrow> Inl e | Inr vs \<Rightarrow>
      (case to_strings vs of Inl e \<Rightarrow> Inl e | Inr s \<Rightarrow> Inr (JStr s)))"
| "eval_list hst [] = Inr []"
| "eval_list hst (e # es) =
     (case eval hst e of
        Inl err \<Rightarrow> Inl err
      | Inr v \<Rightarrow> (case eval_list hst es of Inl err \<Rightarrow> Inl err | Inr vs \<Rightarrow> Inr (v # vs)))"
| "eval_props hst [] = Inr []"
| "eval_props hst ((k, e) # ps) =
     (case eval hst e of
        Inl err \<Rightarrow> Inl err
      | Inr v \<Rightarrow> (case eval_props hst ps of Inl err \<Rightarrow> Inl err | Inr vs \<Rightarrow> Inr ((k, v) # vs)))"

subsection \<open>The initialisers\<close>

definition sidebars_initializer :: expr where
  "sidebars_initializer =
    Obj [
      (''courseSidebar'', Arr [
        Str ''intro'',
        Obj [
          (''type'', Str ''category''),
          (''label'', Str ''Part 1: React Fundamentals''),
          (''collapsed'', Bool False),
          (''items'', Arr [
            Str ''chapters/00-react-architecture'',
            Str ''chapters/01-setup-first-component'',
            Str ''chapters/02-state-and-events'',
            Str ''chapters/03-component-composition'',
            Str ''chapters/04-side-effects-lifecycle'',
            Str ''chapters/05-context-global-state'',
            Str ''chapters/06-custom-hooks''])],
        Obj [
          (''type'', Str ''category''),
          (''label'', Str ''Part 2: Routing & Forms''),
          (''collapsed'', Bool True),
          (''items'', Arr [
            Str ''chapters/07-react-router'',
            Str ''chapters/08-forms-validation''])],
        Obj [
          (''type'', Str ''category''),
          (''label'', Str ''Part 3: Tailwind CSS''),
          (''collapsed'', Bool True),
          (''items'', Arr [
            Str ''chapters/09-tailwind-fundamentals'',
            Str ''chapters/10-advanced-tailwind''])],
        Obj [
          (''type'', Str ''category''),
          (''label'', Str ''Part 4: shadcn/ui''),
          (''collapsed'', Bool True),
          (''items'', Arr [
            Str ''chapters/11-shadcn-setup-core'',
            Str ''chapters/12-shadcn-complex-components'',
            Str ''chapters/13-data-display'',
            Str ''chapters/14-shadcn-forms'',
            Str ''chapters/15-theming-polish''])],
        Obj [
          (''type'', Str ''category''),
          (''label'', Str ''Part 5: Production''),
          (''collapsed'', Bool True),
          (''items'', Arr [Str ''chapters/16-performance'', Str ''chapters/17-testing''])]])]"

definition config_initializer :: expr where
  "config_initializer =
    Obj [
      (''title'', Str ''Learn React by Building''),
      (''tagline'', Str (''A project-based React 19 curriculum '' @ em_dash @ '' from mental models to production UI'')),
      (''favicon'', Str ''img/favicon.ico''),
      (''future'', Obj [(''v4'', Bool True)]),
      (''url'', Str ''https://bobby-openclaw.github.io''),
      (''baseUrl'', Str ''/react-learning/''),
      (''organizationName'', Str ''bobby-openclaw''),
      (''projectName'', Str ''react-learning''),
      (''onBrokenLinks'', Str ''warn''),
      (''i18n'', Obj [(''defaultLocale'', Str ''en''), (''locales'', Arr [Str ''en''])]),
      (''markdown'', Obj [(''mermaid'', Bool True)]),
      (''themes'', Arr [
        Str ''@docusaurus/theme-live-codeblock'',
        Str ''@docusaurus/theme-mermaid'']),
      (''presets'', Arr [
        Arr [
          Str ''classic'',
          Obj [
            (''docs'', Obj [
              (''sidebarPath'', Str ''./sidebars.ts''),
              (''editUrl'', Str ''https://github.com/bobby-openclaw/react-learning/tree/main/website/''),
              (''routeBasePath'', Str ''/'')]),
            (''blog'', Bool False),
            (''theme'', Obj [(''customCss'', Str ''./src/css/custom.css'')])]]]),
      (''themeConfig'', Obj [
        (''image'', Str ''img/react-learning-social.png''),
        (''colorMode'', Obj [
          (''defaultMode'', Str ''dark''),
          (''respectPrefersColorScheme'', Bool True)]),
        (''navbar'', Obj [
          (''title'', Str ''Learn React''),
          (''logo'', Obj [(''alt'', Str ''React Logo''), (''src'', Str ''img/logo.svg'')]),
          (''items'', Arr [
            Obj [
              (''type'', Str ''docSidebar''),
              (''sidebarId'', Str ''courseSidebar''),
              (''position'', Str ''left''),
              (''label'', Str ''Course'')],
            Obj [
              (''href'', Str ''https://github.com/bobby-openclaw/taskflow-app''),
              (''label'', Str ''TaskFlow Code''),
              (''position'', Str ''left'')],
            Obj [
              (''href'', Str ''https://github.com/bobby-openclaw/react-learning''),
              (''label'', Str ''GitHub''),
              (''position'', Str ''right'')]])]),
        (''footer'', Obj [
          (''style'', Str ''dark''),
          (''links'', Arr [
            Obj [
              (''title'', Str ''Course''),
              (''items'', Arr [
                Obj [
                  (''label'', Str ''Part 1: React Fundamentals''),
                  (''to'', Str ''/category/part-1-react-fundamentals'')],
                Obj [
                  (''label'', Str ''Part 2: Tailwind CSS''),
                  (''to'', Str ''/category/part-2-tailwind-css'')],
                Obj [
                  (''label'', Str ''Part 3: shadcn/ui''),
                  (''to'', Str ''/category/part-3-shadcnui'')]])],
            Obj [
              (''title'', Str ''Resources''),
              (''items'', Arr [
                Obj [
                  (''label'', Str ''TaskFlow Companion Repo''),
                  (''href'', Str ''https://github.com/bobby-openclaw/taskflow-app'')],
                Obj [(''label'', Str ''React Docs''), (''href'', Str ''https://react.dev'')],
                Obj [
                  (''label'', Str ''Tailwind Docs''),
                  (''href'', Str ''https://tailwindcss.com'')]])],
            Obj [
              (''title'', Str ''More''),
              (''items'', Arr [
                Obj [
                  (''label'', Str ''GitHub''),
                  (''href'', Str ''https://github.com/bobby-openclaw/react-learning'')]])]]),
          (''copyright'', Template [
            Str ''Built with React 19 in mind. Last updated '',
            CallMethod (New (Ident ''Date'')) ''getFullYear'',
            Str ''.''])]),
        (''prism'', Obj [
          (''theme'', Member (Ident ''prismThemes'') ''github''),
          (''darkTheme'', Member (Ident ''prismThemes'') ''dracula''),
          (''additionalLanguages'', Arr [Str ''bash'', Str ''json'', Str ''typescript'', Str ''tsx''])])])]"


subsection \<open>Evaluating a module\<close>

text \<open>
  A module is evaluated by loading what it imports values from, then evaluating its
  initialiser. The sidebar module imports a type only. The configuration module imports
  from prism-react-renderer, and its evaluation fails at once when the package cannot
  be loaded.
\<close>

definition evaluate_sidebars_module :: "'h host \<Rightarrow> error + 'h jsval" where
  "evaluate_sidebars_module hst = eval hst sidebars_initializer"

definition evaluate_config_module :: "'h host \<Rightarrow> error + 'h jsval" where
  "evaluate_config_module hst =
     (case themes_import hst of
        Missing \<Rightarrow> Inl (ImportError ''prism-react-renderer'')
      | _ \<Rightarrow> eval hst config_initializer)"

subsection \<open>The typed values as values of the language\<close>

fun js_of_item :: "SidebarItemConfig \<Rightarrow> 'h jsval" where
  "js_of_item (Doc i) = JStr i"
| "js_of_item (Category l c its) =
     JObj [(''type'', JStr ''category''), (''label'', JStr l), (''collapsed'', JBool c),
           (''items'', JArr (map js_of_item its))]"

definition js_of_sidebars :: "SidebarsConfig \<Rightarrow> 'h jsval" where
  "js_of_sidebars sb = JObj (map (\<lambda>(name, tree). (name, JArr (map js_of_item tree))) sb)"

fun js_of_severity :: "ReportingSeverity \<Rightarrow> 'h jsval" where
  "js_of_severity Ignore = JStr ''ignore''"
| "js_of_severity Log = JStr ''log''"
| "js_of_severity Warn = JStr ''warn''"
| "js_of_severity Throw = JStr ''throw''"

fun js_of_navbar_item :: "NavbarItem \<Rightarrow> 'h jsval" where
  "js_of_navbar_item (DocSidebarItem sid pos lab) =
     JObj [(''type'', JStr ''docSidebar''), (''sidebarId'', JStr sid), (''position'', JStr pos),
           (''label'', JStr lab)]"
| "js_of_navbar_item (HrefItem h lab pos) =
     JObj [(''href'', JStr h), (''label'', JStr lab), (''position'', JStr pos)]"

fun js_of_footer_link :: "FooterLinkItem \<Rightarrow> 'h jsval" where
  "js_of_footer_link (ToLink lab t) = JObj [(''label'', JStr lab), (''to'', JStr t)]"
| "js_of_footer_link (HrefLink lab h) = JObj [(''label'', JStr lab), (''href'', JStr h)]"

definition js_of_footer_column :: "FooterColumn \<Rightarrow> 'h jsval" where
  "js_of_footer_column c =
     JObj [(''title'', JStr (column_title c)),
           (''items'', JArr (map js_of_footer_link (column_items c)))]"

definition js_of_preset :: "string \<times> PresetOptions \<Rightarrow> 'h jsval" where
  "js_of_preset p =
     JArr [JStr (fst p),
       JObj [
         (''docs'', JObj [
            (''sidebarPath'', JStr (sidebarPath (docs (snd p)))),
            (''editUrl'', JStr (editUrl (docs (snd p)))),
            (''routeBasePath'', JStr (routeBasePath (docs (snd p))))]),
         (''blog'', JBool (blog (snd p))),
         (''theme'', JObj [(''customCss'', JStr (customCss (theme (snd p))))])]]"

fun js_of_theme :: "'h option \<Rightarrow> 'h jsval" where
  "js_of_theme None = JUndefined"
| "js_of_theme (Some h) = JHost h"

definition js_of_themeConfig :: "'h ThemeConfig \<Rightarrow> 'h jsval" where
  "js_of_themeConfig t =
     JObj [
       (''image'', JStr (image t)),
       (''colorMode'', JObj [
          (''defaultMode'', JStr (defaultMode (colorMode t))),
          (''respectPrefersColorScheme'', JBool (respectPrefersColorScheme (colorMode t)))]),
       (''navbar'', JObj [
          (''title'', JStr (navbar_title (navbar t))),
          (''logo'', JObj [(''alt'', JStr (alt (logo (navbar t)))),
                           (''src'', JStr (src (logo (navbar t))))]),
          (''items'', JArr (map js_of_navbar_item (navbar_items (navbar t))))]),
       (''footer'', JObj [
          (''style'', JStr (style (footer t))),
          (''links'', JArr (map js_of_footer_column (links (footer t)))),
          (''copyright'', JStr (copyright (footer t)))]),
       (''prism'', JObj [
          (''theme'', js_of_theme (prism_theme (prism t))),
          (''darkTheme'', js_of_theme (darkTheme (prism t))),
          (''additionalLanguages'', JArr (map JStr (additionalLanguages (prism t))))])]"

definition js_of_config :: "'h Config \<Rightarrow> 'h jsval" where
  "js_of_config c =
     JObj [
       (''title'', JStr (title c)),
       (''tagline'', JStr (tagline c)),
       (''favicon'', JStr (favicon c)),
       (''future'', JObj [(''v4'', JBool (v4 (future c)))]),
       (''url'', JStr (url c)),
       (''baseUrl'', JStr (baseUrl c)),
       (''organizationName'', JStr (organizationName c)),
       (''projectName'', JStr (projectName c)),
       (''onBrokenLinks'', js_of_severity (onBrokenLinks c)),
       (''i18n'', JObj [(''defaultLocale'', JStr (defaultLocale (i18n c))),
                        (''locales'', JArr (map JStr (locales (i18n c))))]),
       (''markdown'', JObj [(''mermaid'', JBool (mermaid (markdown c)))]),
       (''themes'', JArr (map JStr (themes c))),
       (''presets'', JArr (map js_of_preset (presets c))),
       (''themeConfig'', js_of_themeConfig (themeConfig c))]"

section \<open>The markdown documents\<close>

text \<open>
  The lesson files are data for the site generator: a document may begin with a
  front-matter block (keys and values between two \<open>---\<close> lines), followed by the
  text under a first-level heading. A document is recorded with the file of the
  repository text it is found in, the line where it begins there, the keys and values of
  its front matter in their order (empty when it has none), and its first heading.
  Several files of the repository text hold more than one document, one after the other;
  the documents after the first have no file name of their own, and neither have the
  documents of the files \<open>unnamed/part_NNN\<close>.
\<close>

record document =
  source_file :: string
  first_line :: nat
  front_matter :: "(string \<times> string) list"
  heading :: string

definition intro_md :: document where
  "intro_md =
     \<lparr> source_file = ''website/docs/intro.md'', first_line = 1,
       front_matter = [(''sidebar_position'', ''0''), (''title'', ''Welcome''), (''slug'', ''/'')],
       heading = ''Learn React by Building '' @ rocket \<rparr>"

definition documents :: "document list" where
  "documents = [
     \<lparr> source_file = ''README.md'', first_line = 1,
       front_matter = [],
       heading = rocket @ '' TaskFlow '' @ em_dash @ '' Learn React by Building'' \<rparr>,
     \<lparr> source_file = ''REFERENCE.md'', first_line = 1,
       front_matter = [],
       heading = ''Reference Material for Chapter Authors'' \<rparr>,
     \<lparr> source_file = ''chapters/03-component-composition/CHAPTER.md'', first_line = 1,
       front_matter = [],
       heading = ''Chapter 3: Component Composition'' \<rparr>,
     \<lparr> source_file = ''chapters/03-component-composition/CHAPTER.md'', first_line = 680,
       front_matter = [],
       heading = ''Chapter 15: Theming & Polish'' \<rparr>,
     \<lparr> source_file = ''chapters/05-context-global-state/CHAPTER.md'', first_line = 1,
       front_matter = [],
       heading = ''Chapter 5: Context & Global State'' \<rparr>,
     \<lparr> source_file = ''chapters/06-custom-hooks/CHAPTER.md'', first_line = 1,
       front_matter = [],
       heading = ''Chapter 6: Custom Hooks'' \<rparr>,
     \<lparr> source_file = ''chapters/07-react-router/CHAPTER.md'', first_line = 1,
       front_matter = [],
       heading = ''Chapter 7: React Router '' @ em_dash @ '' Navigation & Multi-Page Apps'' \<rparr>,
     \<lparr> source_file = ''unnamed/part_000'', first_line = 1,
       front_matter = [(''id'', ''16-performance''), (''sidebar_position'', ''17''), (''title'', ''Chapter 16: Performance'')],
       heading = ''Chapter 16: Performance'' \<rparr>,
     \<lparr> source_file = ''unnamed/part_001'', first_line = 1,
       front_matter = [(''id'', ''15-theming-polish''), (''sidebar_position'', ''16''), (''title'', ''Chapter 15: Theming & Polish'')],
       heading = ''Chapter 15: Theming & Polish'' \<rparr>,
     \<lparr> source_file = ''unnamed/part_002'', first_line = 1,
       front_matter = [(''id'', ''17-testing''), (''sidebar_position'', ''18''), (''title'', ''Chapter 17: Testing'')],
       heading = ''Chapter 17: Testing'' \<rparr>,
     \<lparr> source_file = ''unnamed/part_003'', first_line = 1,
       front_matter = [(''id'', ''00-react-architecture''), (''sidebar_position'', ''1''), (''title'', ''Chapter 0: React Architecture & Mental Models'')],
       heading = ''Chapter 0: React Architecture & Mental Models'' \<rparr>,
     \<lparr> source_file = ''unnamed/part_004'', first_line = 1,
       front_matter = [],
       heading = ''Chapter 2: State & Events'' \<rparr>,
     \<lparr> source_file = ''unnamed/part_004'', first_line = 790,
       front_matter = [],
       heading = ''Chapter 10: Advanced Tailwind CSS'' \<rparr>,
     intro_md,
     \<lparr> source_file = ''website/docs/chapters/08-forms-validation.md'', first_line = 1,
       front_matter = [(''id'', ''08-forms-validation''), (''sidebar_position'', ''9''), (''title'', ''Chapter 8: Forms & Validation'')],
       heading = ''Chapter 8: Forms & Validation'' \<rparr>,
     \<lparr> source_file = ''website/docs/chapters/09-tailwind-fundamentals.md'', first_line = 1,
       front_matter = [(''id'', ''09-tailwind-fundamentals''), (''sidebar_position'', ''10''), (''title'', ''Chapter 9: Tailwind CSS Fundamentals'')],
       heading = ''Chapter 9: Tailwind CSS Fundamentals'' \<rparr>,
     \<lparr> source_file = ''website/docs/chapters/11-shadcn-setup-core.md'', first_line = 1,
       front_matter = [(''id'', ''11-shadcn-setup-core''), (''sidebar_position'', ''12''), (''title'', ''Chapter 11: shadcn/ui '' @ em_dash @ '' Setup & Core Components'')],
       heading = ''Chapter 11: shadcn/ui '' @ em_dash @ '' Setup & Core Components'' \<rparr>,
     \<lparr> source_file = ''website/docs/chapters/14-shadcn-forms.md'', first_line = 1,
       front_matter = [(''id'', ''14-shadcn-forms''), (''sidebar_position'', ''15''), (''title'', ''Chapter 14: Forms the shadcn Way'')],
       heading = ''Chapter 14: Forms the shadcn Way'' \<rparr>,
     \<lparr> source_file = ''website/docs/chapters/14-shadcn-forms.md'', first_line = 984,
       front_matter = [(''id'', ''04-side-effects-lifecycle''), (''sidebar_position'', ''5''), (''title'', ''Chapter 4: Side Effects & Lifecycle'')],
       heading = ''Chapter 4: Side Effects & Lifecycle'' \<rparr>,
     \<lparr> source_file = ''website/docs/chapters/14-shadcn-forms.md'', first_line = 1928,
       front_matter = [(''id'', ''13-data-display''), (''sidebar_position'', ''14''), (''title'', ''Chapter 13: Data Display '' @ em_dash @ '' Tables, Tabs, Toasts & Skeletons'')],
       heading = ''Chapter 13: Data Display '' @ em_dash @ '' Tables, Tabs, Toasts & Skeletons'' \<rparr>,
     \<lparr> source_file = ''website/docs/chapters/14-shadcn-forms.md'', first_line = 2833,
       front_matter = [(''id'', ''01-setup-first-component''), (''sidebar_position'', ''2''), (''title'', ''Chapter 1: Setup & Your First Component'')],
       heading = ''Chapter 1: Setup & Your First Component'' \<rparr>,
     \<lparr> source_file = ''website/docs/chapters/14-shadcn-forms.md'', first_line = 3505,
       front_matter = [],
       heading = ''Chapter 0: React Architecture & Mental Models'' \<rparr>,
     \<lparr> source_file = ''website/docs/chapters/14-shadcn-forms.md'', first_line = 3866,
       front_matter = [],
       heading = ''Chapter 12: shadcn/ui '' @ em_dash @ '' Complex Components'' \<rparr>]"

text \<open>The path of a document in the repository, when its file name is known.\<close>

definition path :: "document \<Rightarrow> string option" where
  "path d = (if first_line d = 1 \<and> take 8 (source_file d) \<noteq> ''unnamed/'' then Some (source_file d) else None)"

text \<open>
  The site generator reads the documents under \<open>website/docs\<close>: the configuration's
  classic preset sets no other path for its docs, and the site lives in \<open>website\<close>.
\<close>

definition under_docs :: "document \<Rightarrow> bool" where
  "under_docs d = (case path d of Some p \<Rightarrow> take 13 p = ''website/docs/'' | None \<Rightarrow> False)"

definition has_key :: "string \<Rightarrow> document \<Rightarrow> bool" where
  "has_key k d = (map_of (front_matter d) k \<noteq> None)"

text \<open>
  A sidebar names a document by its identifier: the document's directory under
  \<open>website/docs\<close>, then its front-matter \<open>id\<close>, or its file name without \<open>.md\<close> when it
  has no \<open>id\<close>. \<open>declares d i\<close> holds when the document can have the identifier \<open>i\<close> by
  either part: its front-matter \<open>id\<close> is the last component of \<open>i\<close>, or its path is
  \<open>website/docs/i.md\<close>.
\<close>

definition base_name :: "string \<Rightarrow> string" where
  "base_name i = rev (takeWhile (\<lambda>c. c \<noteq> CHR ''/'') (rev i))"

definition declares :: "document \<Rightarrow> string \<Rightarrow> bool" where
  "declares d i =
     (map_of (front_matter d) ''id'' = Some (base_name i) \<or>
      path d = Some (''website/docs/'' @ i @ ''.md''))"

text \<open>The identifiers of a navigation tree that no document declares.\<close>

definition undeclared :: "document list \<Rightarrow> SidebarItemConfig list \<Rightarrow> string list" where
  "undeclared ds tree = filter (\<lambda>i. \<not> list_ex (\<lambda>d. declares d i) ds) (sidebar_doc_ids tree)"

section \<open>Properties of the navigation tree\<close>

text \<open>
  C5. The sidebar module exports one navigation tree, \<open>courseSidebar\<close>: the identifier
  \<open>intro\<close> followed by five categories, each a label with an ordered list of document
  identifiers and no category inside a category, and the identifiers of the categories
  are those of chapters 00 to 17 in ascending order.
\<close>

theorem sidebars_one_flat_tree:
  "map fst sidebars = [''courseSidebar''] \<and>
   map_of sidebars ''courseSidebar'' = Some courseSidebar \<and>
   (\<exists>cats. courseSidebar = Doc ''intro'' # cats \<and> length cats = 5 \<and>
      list_all flat_category cats \<and>
      map chapter_number (sidebar_doc_ids cats) = map Some [0..<18])"
proof -
  have keys: "map fst sidebars = [''courseSidebar'']"
    by (simp add: sidebars_def)
  have tree: "map_of sidebars ''courseSidebar'' = Some courseSidebar"
    by (simp add: sidebars_def)
  have nums: "map Some [0..<18] = map Some [0, 1, 2, 3, 4, 5, 6, 7, 8, 9, 10, 11, 12, 13, 14, 15, 16, Suc 16 :: nat]"
    by (simp add: upt_rec)
  have shape: "\<exists>cats. courseSidebar = Doc ''intro'' # cats \<and> length cats = 5 \<and>
      list_all flat_category cats \<and>
      map chapter_number (sidebar_doc_ids cats) = map Some [0..<18]"
    unfolding courseSidebar_def nums
    by (simp add: sidebar_doc_ids_def chapter_number_def digit_of_def)
  from keys tree shape show ?thesis by blast
qed

text \<open>
  C10. Every document identifier of \<open>courseSidebar\<close> occurs exactly once in the whole
  tree: not in two categories, not twice in one category, and not both at the top level
  and inside a category.
\<close>

theorem courseSidebar_ids_distinct:
  "distinct (sidebar_doc_ids courseSidebar)"
  by (simp add: sidebar_doc_ids_def courseSidebar_def)

section \<open>Properties of the site configuration\<close>

text \<open>
  C6. The configuration supplies the stated surface: the site metadata (title
  \<open>Learn React by Building\<close>, the url, baseUrl \<open>/react-learning/\<close>), a navbar with
  three entries, a footer with three groups of links, the Prism languages
  \<open>bash, json, typescript, tsx\<close>, and a colour mode that defaults to \<open>dark\<close> and
  respects the preferred colour scheme. This holds in every runtime.
\<close>

theorem config_surface:
  "title (config rt) = ''Learn React by Building'' \<and>
   url (config rt) = ''https://bobby-openclaw.github.io'' \<and>
   baseUrl (config rt) = ''/react-learning/'' \<and>
   length (navbar_items (navbar (themeConfig (config rt)))) = 3 \<and>
   length (links (footer (themeConfig (config rt)))) = 3 \<and>
   additionalLanguages (prism (themeConfig (config rt))) =
     [''bash'', ''json'', ''typescript'', ''tsx''] \<and>
   defaultMode (colorMode (themeConfig (config rt))) = ''dark'' \<and>
   respectPrefersColorScheme (colorMode (themeConfig (config rt))) = True"
  by (simp add: config_def)

text \<open>
  C9. Some Course link of the footer carries a part label that is the label of no
  category of \<open>courseSidebar\<close>. The footer names \<open>Part 2: Tailwind CSS\<close> and
  \<open>Part 3: shadcn/ui\<close>; the sidebar's categories are \<open>Part 2: Routing & Forms\<close>,
  \<open>Part 3: Tailwind CSS\<close> and \<open>Part 4: shadcn/ui\<close> (between Part 1 and Part 5). The
  two footer links, with the category routes they point to, are exactly the Course
  links that match no sidebar category.
\<close>

theorem footer_course_labels_unmatched:
  "map link_label (footer_column ''Course'' (footer (themeConfig (config rt)))) =
     [''Part 1: React Fundamentals'', ''Part 2: Tailwind CSS'', ''Part 3: shadcn/ui''] \<and>
   category_labels courseSidebar =
     [''Part 1: React Fundamentals'', ''Part 2: Routing & Forms'', ''Part 3: Tailwind CSS'',
      ''Part 4: shadcn/ui'', ''Part 5: Production''] \<and>
   ''Part 2: Tailwind CSS'' \<notin> set (category_labels courseSidebar) \<and>
   ''Part 3: shadcn/ui'' \<notin> set (category_labels courseSidebar) \<and>
   unmatched_course_links (config rt) =
     [ToLink ''Part 2: Tailwind CSS'' ''/category/part-2-tailwind-css'',
      ToLink ''Part 3: shadcn/ui'' ''/category/part-3-shadcnui'']"
proof -
  have cats: "category_labels courseSidebar =
     [''Part 1: React Fundamentals'', ''Part 2: Routing & Forms'', ''Part 3: Tailwind CSS'',
      ''Part 4: shadcn/ui'', ''Part 5: Production'']"
    by (simp add: category_labels_def courseSidebar_def)
  have course: "footer_column ''Course'' (footer (themeConfig (config rt))) =
     [ToLink ''Part 1: React Fundamentals'' ''/category/part-1-react-fundamentals'',
      ToLink ''Part 2: Tailwind CSS'' ''/category/part-2-tailwind-css'',
      ToLink ''Part 3: shadcn/ui'' ''/category/part-3-shadcnui'']"
    by (simp add: footer_column_def config_def)
  show ?thesis
    unfolding unmatched_course_links_def course cats by simp
qed

subsection \<open>The decimal numeral of a number determines the number\<close>

declare decimal.simps [simp del]

lemma decimal_nonempty: "decimal n \<noteq> []"
  by (subst decimal.simps) simp

lemma digit_char_inj: "a < 10 \<Longrightarrow> b < 10 \<Longrightarrow> digit_char a = digit_char b \<longleftrightarrow> a = b"
  by (auto simp: digit_char_def char_of_eq_iff take_bit_nat_eq_self)

lemma digit_char_not_minus: "d < 10 \<Longrightarrow> digit_char d \<noteq> CHR ''-''"
proof
  assume d: "d < 10" and e: "digit_char d = CHR ''-''"
  then have "(of_char (digit_char d) :: nat) = of_char CHR ''-''" by simp
  with d show False by (simp add: digit_char_def)
qed

lemma decimal_inj: "decimal m = decimal n \<Longrightarrow> m = n"
proof (induction m arbitrary: n rule: decimal.induct)
  case (1 m)
  show ?case
  proof (cases "m < 10")
    case True
    then have dm: "decimal m = [digit_char m]" by (subst decimal.simps) simp
    have "n < 10"
    proof (rule ccontr)
      assume "\<not> n < 10"
      then have "decimal n = decimal (n div 10) @ [digit_char (n mod 10)]"
        by (subst decimal.simps) simp
      with dm "1.prems" decimal_nonempty [of "n div 10"] show False by simp
    qed
    then have "decimal n = [digit_char n]" by (subst decimal.simps) simp
    with dm "1.prems" True \<open>n < 10\<close> show ?thesis by (simp add: digit_char_inj)
  next
    case False
    then have dm: "decimal m = decimal (m div 10) @ [digit_char (m mod 10)]"
      by (subst decimal.simps) simp
    have nn: "\<not> n < 10"
    proof
      assume "n < 10"
      then have "decimal n = [digit_char n]" by (subst decimal.simps) simp
      with dm "1.prems" decimal_nonempty [of "m div 10"] show False by simp
    qed
    then have dn: "decimal n = decimal (n div 10) @ [digit_char (n mod 10)]"
      by (subst decimal.simps) simp
    from dm dn "1.prems" have a: "decimal (m div 10) = decimal (n div 10)"
      and b: "digit_char (m mod 10) = digit_char (n mod 10)" by simp_all
    from "1.IH" [OF False a] have q: "m div 10 = n div 10" .
    from b have r: "m mod 10 = n mod 10" by (simp add: digit_char_inj)
    from q r show ?thesis by (metis div_mult_mod_eq)
  qed
qed

lemma decimal_hd: "hd (decimal n) \<noteq> CHR ''-''"
proof (induction n rule: decimal.induct)
  case (1 n)
  show ?case
  proof (cases "n < 10")
    case True
    then show ?thesis by (subst decimal.simps) (simp add: digit_char_not_minus)
  next
    case False
    with 1 show ?thesis by (subst decimal.simps) (simp add: decimal_nonempty)
  qed
qed

lemma number_to_string_inj: "number_to_string a = number_to_string b \<Longrightarrow> a = b"
proof -
  assume eq: "number_to_string a = number_to_string b"
  have no_minus: "CHR ''-'' # s \<noteq> decimal n" for s n
    using decimal_hd [of n] by (cases "decimal n") auto
  show ?thesis
  proof (cases "a < 0"; cases "b < 0")
    assume "a < 0" "b < 0"
    with eq have "decimal (nat (- a)) = decimal (nat (- b))"
      by (simp add: number_to_string_def)
    then have "nat (- a) = nat (- b)" by (rule decimal_inj)
    with \<open>a < 0\<close> \<open>b < 0\<close> show ?thesis by simp
  next
    assume "a < 0" "\<not> b < 0"
    with eq no_minus [of "decimal (nat (- a))" "nat b"] show ?thesis
      by (simp add: number_to_string_def)
  next
    assume "\<not> a < 0" "b < 0"
    with eq no_minus [of "decimal (nat (- b))" "nat a"] show ?thesis
      by (simp add: number_to_string_def)
  next
    assume "\<not> a < 0" "\<not> b < 0"
    with eq have "decimal (nat a) = decimal (nat b)"
      by (simp add: number_to_string_def)
    then have "nat a = nat b" by (rule decimal_inj)
    with \<open>\<not> a < 0\<close> \<open>\<not> b < 0\<close> show ?thesis by simp
  qed
qed


subsection \<open>What the configuration depends on\<close>

lemma config_eq_iff:
  "config rt1 = config rt2 \<longleftrightarrow>
     clock_year rt1 = clock_year rt2 \<and>
     get_property (prismThemes rt1) ''github'' = get_property (prismThemes rt2) ''github'' \<and>
     get_property (prismThemes rt1) ''dracula'' = get_property (prismThemes rt2) ''dracula''"
  by (auto simp: config_def dest: number_to_string_inj)

text \<open>
  C4, as the code has it. The sidebar configuration is pure data: the sidebar module
  yields the same value in any two runtimes. The site configuration is data but for
  three values: the footer's copyright line embeds \<open>new Date().getFullYear()\<close>, and the
  two Prism themes are read from the imported \<open>prismThemes\<close>. Evaluated in two runtimes
  that provide the same two themes, it yields identical values exactly when the clock
  gives the same year, and the two values differ in the copyright line at most.
\<close>

theorem config_differs_in_copyright_only:
  "fst (evaluate rt1) = fst (evaluate rt2) \<and>
   (get_property (prismThemes rt1) ''github'' = get_property (prismThemes rt2) ''github'' \<and>
    get_property (prismThemes rt1) ''dracula'' = get_property (prismThemes rt2) ''dracula'' \<longrightarrow>
      (snd (evaluate rt1) = snd (evaluate rt2) \<longleftrightarrow> clock_year rt1 = clock_year rt2) \<and>
      snd (evaluate rt2) = (config rt1)\<lparr>themeConfig := (themeConfig (config rt1))
         \<lparr>footer := (footer (themeConfig (config rt1)))
           \<lparr>copyright := ''Built with React 19 in mind. Last updated ''
                @ number_to_string (clock_year rt2) @ ''.''\<rparr>\<rparr>\<rparr>)"
proof -
  have sb: "fst (evaluate rt1) = fst (evaluate rt2)"
    by (simp add: evaluate_def)
  {
    assume g: "get_property (prismThemes rt1) ''github'' = get_property (prismThemes rt2) ''github''"
      and d: "get_property (prismThemes rt1) ''dracula'' = get_property (prismThemes rt2) ''dracula''"
    from g d have a: "snd (evaluate rt1) = snd (evaluate rt2) \<longleftrightarrow> clock_year rt1 = clock_year rt2"
      by (simp add: evaluate_def config_eq_iff)
    from g d have b: "snd (evaluate rt2) = (config rt1)\<lparr>themeConfig := (themeConfig (config rt1))
         \<lparr>footer := (footer (themeConfig (config rt1)))
           \<lparr>copyright := ''Built with React 19 in mind. Last updated ''
                @ number_to_string (clock_year rt2) @ ''.''\<rparr>\<rparr>\<rparr>"
      by (simp add: evaluate_def config_def)
    note a b
  }
  with sb show ?thesis by blast
qed

theorem config_differs_in_copyright_only_witness:
  "get_property [(''github'', ''g''), (''dracula'', ''d'')] ''github'' =
     get_property [(''dracula'', ''d''), (''nightOwl'', ''n''), (''github'', ''g'')] ''github'' \<and>
   get_property [(''github'', ''g''), (''dracula'', ''d'')] ''dracula'' =
     get_property [(''dracula'', ''d''), (''nightOwl'', ''n''), (''github'', ''g'')] ''dracula'' \<and>
   snd (evaluate \<lparr>clock_year = 2024, prismThemes = [(''github'', ''g''), (''dracula'', ''d'')]\<rparr>)
     \<noteq> snd (evaluate \<lparr>clock_year = 2030,
            prismThemes = [(''dracula'', ''d''), (''nightOwl'', ''n''), (''github'', ''g'')]\<rparr>)"
proof -
  let ?a = "\<lparr>clock_year = 2024, prismThemes = [(''github'', ''g''), (''dracula'', ''d'')]\<rparr>"
  let ?b = "\<lparr>clock_year = 2030,
            prismThemes = [(''dracula'', ''d''), (''nightOwl'', ''n''), (''github'', ''g'')]\<rparr>"
  have g: "get_property (prismThemes ?a) ''github'' = get_property (prismThemes ?b) ''github''"
    by (simp add: get_property_def)
  have d: "get_property (prismThemes ?a) ''dracula'' = get_property (prismThemes ?b) ''dracula''"
    by (simp add: get_property_def)
  from config_differs_in_copyright_only [of ?a ?b] g d
  have "snd (evaluate ?a) = snd (evaluate ?b) \<longleftrightarrow> clock_year ?a = clock_year ?b"
    by blast
  then have "snd (evaluate ?a) \<noteq> snd (evaluate ?b)" by simp
  with g d show ?thesis by simp
qed

text \<open>
  C4 as stated fails: the same modules, with the same imported themes, evaluated in 2025
  and in 2026 give different configuration values.
\<close>

theorem evaluate_depends_on_clock_counterexample:
  "evaluate \<lparr>clock_year = 2025, prismThemes = [(''github'', ''g''), (''dracula'', ''d'')]\<rparr>
     \<noteq> evaluate \<lparr>clock_year = 2026, prismThemes = [(''github'', ''g''), (''dracula'', ''d'')]\<rparr>"
  by (simp add: evaluate_def config_def number_to_string_def decimal.simps digit_char_def)

subsection \<open>Broken links\<close>

text \<open>
  C7, as the code has it. The shipped configuration sets \<open>onBrokenLinks\<close> to \<open>warn\<close>:
  in every runtime, links that fail to resolve are reported as a warning and the build
  goes on, so a build that succeeds does not show that all links resolve.
\<close>

theorem broken_links_warn_only:
  "onBrokenLinks (config rt) = Warn \<and>
   reportBrokenLinks (onBrokenLinks (config rt)) brokenLinks =
     (if brokenLinks = [] then Inr NoReport else Inr (Warning brokenLinks))"
  by (simp add: config_def reportBrokenLinks_def)

text \<open>
  C7 as stated fails: with one link that does not resolve, the report under the shipped
  configuration is a warning, not an error.
\<close>

theorem broken_link_build_succeeds_counterexample:
  "reportBrokenLinks
     (onBrokenLinks (config \<lparr>clock_year = 2026, prismThemes = [(''github'', ''g''), (''dracula'', ''d'')]\<rparr>))
     [''/category/part-2-tailwind-css''] = Inr (Warning [''/category/part-2-tailwind-css''])"
  by (simp add: config_def reportBrokenLinks_def)

section \<open>Properties of the evaluation\<close>

text \<open>
  A property read from an object of themes is the theme when the object has it and
  \<open>undefined\<close> when it has not; in neither case an error.
\<close>

lemma lookup_theme:
  "(case map_of (map (\<lambda>(k, h). (k, JHost h)) ths) k of Some v \<Rightarrow> v | None \<Rightarrow> JUndefined)
     = js_of_theme (get_property ths k)"
  by (simp add: get_property_def map_of_map split: option.split)

text \<open>
  C1, as the code has it. Evaluating the sidebar module is total: in every host it ends
  without an error and yields the value of \<open>sidebars\<close>. Evaluating the configuration
  module ends in every host, and it yields the value of \<open>config\<close> without an error
  exactly where the import of \<open>themes\<close> from prism-react-renderer gives an object. Where
  the package cannot be loaded the evaluation fails with an import error, and where the
  package has no export \<open>themes\<close> it raises a \<open>TypeError\<close> at \<open>prismThemes.github\<close>.
\<close>

theorem modules_evaluate:
  "evaluate_sidebars_module hst = Inr (js_of_sidebars sidebars) \<and>
   evaluate_config_module hst =
     (case themes_import hst of
        Missing \<Rightarrow> Inl (ImportError ''prism-react-renderer'')
      | NoExport \<Rightarrow> Inl (TypeError ''github'')
      | Export ths \<Rightarrow>
          Inr (js_of_config (config \<lparr>clock_year = host_year hst, prismThemes = ths\<rparr>)))"
proof -
  have s: "evaluate_sidebars_module hst = Inr (js_of_sidebars sidebars)"
    by (simp add: evaluate_sidebars_module_def sidebars_initializer_def js_of_sidebars_def
        sidebars_def courseSidebar_def)
  have c: "evaluate_config_module hst =
     (case themes_import hst of
        Missing \<Rightarrow> Inl (ImportError ''prism-react-renderer'')
      | NoExport \<Rightarrow> Inl (TypeError ''github'')
      | Export ths \<Rightarrow>
          Inr (js_of_config (config \<lparr>clock_year = host_year hst, prismThemes = ths\<rparr>)))"
  proof (cases "themes_import hst")
    case Missing
    then show ?thesis by (simp add: evaluate_config_module_def)
  next
    case NoExport
    then show ?thesis
      by (simp add: evaluate_config_module_def config_initializer_def lookup_def)
  next
    case (Export ths)
    then show ?thesis
      by (simp add: evaluate_config_module_def config_initializer_def js_of_config_def
          js_of_themeConfig_def js_of_preset_def js_of_footer_column_def config_def lookup_def
          lookup_theme)
  qed
  from s c show ?thesis by simp
qed

text \<open>
  C1 as stated fails: in a host whose prism-react-renderer has no export \<open>themes\<close>, the
  evaluation of the configuration module raises a \<open>TypeError\<close>.
\<close>

theorem config_raises_without_themes_counterexample:
  "evaluate_config_module
     \<lparr>host_year = 2026, themes_import = (NoExport :: string resolution)\<rparr>
     = Inl (TypeError ''github'')"
  by (simp add: evaluate_config_module_def config_initializer_def lookup_def)

section \<open>Properties of the markdown documents\<close>

text \<open>
  C3, as the documents have it. Every document under \<open>website/docs\<close> has front matter,
  and every document with front matter carries \<open>sidebar_position\<close> and \<open>title\<close>. Each of
  them also carries \<open>id\<close> and no \<open>slug\<close>, except \<open>website/docs/intro.md\<close>, which carries
  \<open>slug\<close> and no \<open>id\<close>.
\<close>

theorem front_matter_keys:
  "\<forall>d \<in> set documents.
     (under_docs d \<longrightarrow> front_matter d \<noteq> []) \<and>
     (front_matter d \<noteq> [] \<longrightarrow>
        has_key ''sidebar_position'' d \<and> has_key ''title'' d \<and>
        (if d = intro_md then has_key ''slug'' d \<and> \<not> has_key ''id'' d
         else has_key ''id'' d \<and> \<not> has_key ''slug'' d))"
  unfolding documents_def
  by (simp add: under_docs_def path_def has_key_def intro_md_def)

theorem front_matter_keys_witness:
  "documents ! 14 \<in> set documents \<and> under_docs (documents ! 14) \<and>
   path (documents ! 14) = Some ''website/docs/chapters/08-forms-validation.md'' \<and>
   map fst (front_matter (documents ! 14)) = [''id'', ''sidebar_position'', ''title''] \<and>
   has_key ''id'' (documents ! 14) \<and> has_key ''sidebar_position'' (documents ! 14) \<and>
   has_key ''title'' (documents ! 14)"
proof -
  have m: "documents ! 14 \<in> set documents"
    by (simp add: documents_def)
  have u: "under_docs (documents ! 14)"
    and p: "path (documents ! 14) = Some ''website/docs/chapters/08-forms-validation.md''"
    and k: "map fst (front_matter (documents ! 14)) = [''id'', ''sidebar_position'', ''title'']"
    and n: "documents ! 14 \<noteq> intro_md"
    by (simp_all add: documents_def under_docs_def path_def intro_md_def)
  from front_matter_keys m u n
  have "has_key ''id'' (documents ! 14) \<and> has_key ''sidebar_position'' (documents ! 14) \<and>
        has_key ''title'' (documents ! 14)"
    by (metis (full_types))
  with m u p k show ?thesis by simp
qed

text \<open>
  C3 as stated fails: \<open>website/docs/intro.md\<close> is read by the site generator and its front
  matter has no \<open>id\<close>.
\<close>

theorem intro_has_no_id_counterexample:
  "intro_md \<in> set documents \<and> under_docs intro_md \<and> \<not> has_key ''id'' intro_md"
  by (simp add: documents_def under_docs_def path_def has_key_def intro_md_def)

text \<open>
  C8, as the documents have it. Some identifiers of \<open>courseSidebar\<close> are declared by no
  markdown document, neither by a front-matter \<open>id\<close> nor by a path under \<open>website/docs\<close>:
  they are exactly those of chapters 02, 03, 05, 06, 07, 10 and 12, in the order of the
  tree. So the navigation tree is not closed over the documents that declare an
  identifier.
\<close>

theorem undeclared_identifiers:
  "undeclared documents courseSidebar =
     [''chapters/02-state-and-events'', ''chapters/03-component-composition'',
      ''chapters/05-context-global-state'', ''chapters/06-custom-hooks'',
      ''chapters/07-react-router'', ''chapters/10-advanced-tailwind'',
      ''chapters/12-shadcn-complex-components'']"
  by (simp add: undeclared_def sidebar_doc_ids_def courseSidebar_def documents_def declares_def
      base_name_def path_def intro_md_def)

text \<open>
  C8 as stated fails in its examples: the identifiers of chapters 01, 04 and 13 are each
  declared by the front matter of a document.
\<close>

theorem examples_declared_counterexample:
  "list_ex (\<lambda>d. declares d ''chapters/01-setup-first-component'') documents \<and>
   list_ex (\<lambda>d. declares d ''chapters/04-side-effects-lifecycle'') documents \<and>
   list_ex (\<lambda>d. declares d ''chapters/13-data-display'') documents"
  by (simp add: documents_def declares_def base_name_def path_def intro_md_def)

end
